theory Spec2Isabelle
  imports Complex_Main "HOL-Library.Char_ord" "HOL-Library.List_Lexorder" "HOL-Library.Option_ord"
begin

section \<open>Family expense tracker: data access layer and dashboard alerts\<close>

text \<open>
  A shallow embedding of \<^verbatim>\<open>app/utils/db.py\<close> and of the alert computation of
  \<^verbatim>\<open>app/pages/1_Dashboard.py\<close>.

  Conventions of the embedding.
  \<^item> The SQLite file is a record \<open>db\<close> of five tables, each a list of rows in rowid order,
    with the AUTOINCREMENT counter of each table beside it. Every accessor takes the
    database and returns the new one with its result.
  \<^item> Python's \<open>float\<close> and SQLite's REAL are the type \<open>real\<close>: arithmetic is exact and
    there is no NaN or infinity.
  \<^item> A Python exception is the value \<open>None\<close> of an option; each \<open>try/except\<close> of the source
    is a \<open>case\<close> on it.
  \<^item> What the source takes from outside the repository is a parameter: the parsers behind
    \<open>float(str)\<close> and \<open>int(str)\<close>, \<open>json\<close>, \<open>datetime.strptime\<close>, the two password
    hashing libraries (record \<open>pylib\<close>), the clock, the random token and the bcrypt salt.
  \<^item> The storage engine executes every statement it is given, but for the errors the data
    decide: a violated constraint of the schema, a Python int outside SQLite's 64-bit
    INTEGER, and an AUTOINCREMENT counter that has reached the largest rowid. An accessor
    that fails has committed nothing: the connection is closed without \<open>commit\<close>.
\<close>

subsection \<open>Python values and coercions\<close>

text \<open>
  An argument annotated \<open>Any\<close>, or one the source guards against bad values:
  \<open>None\<close>, a bool, an int, a float, a str, or some other object (a list, a dict, ...),
  of which only the truth value is kept.
\<close>

datatype pyval = PNone | PBool bool | PInt int | PFloat real | PStr string | PObj bool

record pylib =
  float_of_str :: "string \<Rightarrow> real option"
  int_of_str :: "string \<Rightarrow> int option"
  json_loads_ok :: "string \<Rightarrow> bool"
  reformat_date :: "string \<Rightarrow> string \<Rightarrow> string option"
  has_bcrypt :: bool
  bcrypt_hashpw :: "string \<Rightarrow> string \<Rightarrow> string option"
  bcrypt_checkpw :: "string \<Rightarrow> string \<Rightarrow> bool option"
  sha256_hexdigest :: "string \<Rightarrow> string"

text \<open>\<open>bool(v)\<close>, as \<open>v or d\<close> and \<open>if v\<close> read it.\<close>

fun truthy :: "pyval \<Rightarrow> bool" where
  "truthy PNone = False"
| "truthy (PBool b) = b"
| "truthy (PInt i) = (i \<noteq> 0)"
| "truthy (PFloat x) = (x \<noteq> 0)"
| "truthy (PStr s) = (s \<noteq> [])"
| "truthy (PObj t) = t"

definition py_or :: "pyval \<Rightarrow> pyval \<Rightarrow> pyval" where
  "py_or v d = (if truthy v then v else d)"

text \<open>\<open>int(x)\<close> of a float truncates towards zero.\<close>

definition py_trunc :: "real \<Rightarrow> int" where
  "py_trunc x = (if 0 \<le> x then \<lfloor>x\<rfloor> else \<lceil>x\<rceil>)"

text \<open>
  \<open>float(i)\<close> of an int raises OverflowError when \<open>i\<close> rounds to a magnitude beyond the
  largest float, which is from \<open>2^1024 - 2^970\<close> on.
\<close>

definition float_overflows :: "int \<Rightarrow> bool" where
  "float_overflows i = (2 ^ 1024 - 2 ^ 970 \<le> \<bar>i\<bar>)"

text \<open>\<open>float(v)\<close>: \<open>None\<close> is TypeError, ValueError or OverflowError.\<close>

fun py_float :: "pylib \<Rightarrow> pyval \<Rightarrow> real option" where
  "py_float L PNone = None"
| "py_float L (PBool b) = Some (if b then 1 else 0)"
| "py_float L (PInt i) = (if float_overflows i then None else Some (real_of_int i))"
| "py_float L (PFloat x) = Some x"
| "py_float L (PStr s) = float_of_str L s"
| "py_float L (PObj t) = None"

text \<open>\<open>int(v)\<close>: \<open>None\<close> is TypeError or ValueError.\<close>

fun py_int :: "pylib \<Rightarrow> pyval \<Rightarrow> int option" where
  "py_int L PNone = None"
| "py_int L (PBool b) = Some (if b then 1 else 0)"
| "py_int L (PInt i) = Some i"
| "py_int L (PFloat x) = Some (py_trunc x)"
| "py_int L (PStr s) = int_of_str L s"
| "py_int L (PObj t) = None"

text \<open>\<open>s or ""\<close> for a text argument that may be \<open>None\<close>.\<close>

definition or_empty :: "string option \<Rightarrow> string" where
  "or_empty s = (case s of None \<Rightarrow> [] | Some t \<Rightarrow> t)"

subsection \<open>Dashboard: alert thresholds\<close>

text \<open>
  \<^verbatim>\<open>
  def safe_float(value, default=0.0):
      try:
          if value is None:
              return float(default)
          return float(value)
      except Exception:
          return float(default)
  \<close>
\<close>

definition safe_float :: "pylib \<Rightarrow> pyval \<Rightarrow> real \<Rightarrow> real" where
  "safe_float L v d =
     (case v of
        PNone \<Rightarrow> d
      | _ \<Rightarrow> (case py_float L v of None \<Rightarrow> d | Some x \<Rightarrow> x))"

text \<open>
  The alerts \<open>render_alerts\<close> collects, with the category and the percentage each message
  prints; the message text and the Streamlit calls are presentation.
\<close>

datatype alert = Exceeded string real | Nearing string real

text \<open>
  One iteration of \<^verbatim>\<open>for cat, limit in category_limits.items()\<close>: \<open>None\<close> when the
  iteration appends nothing.
\<close>

definition alert_for :: "pylib \<Rightarrow> (string \<rightharpoonup> real) \<Rightarrow> string \<times> pyval \<Rightarrow> alert option" where
  "alert_for L cat_spend item =
     (let cat = fst item;
          limit_val = safe_float L (snd item) 0;
          spent_val = safe_float L (case cat_spend cat of None \<Rightarrow> PInt 0 | Some x \<Rightarrow> PFloat x) 0
      in if limit_val \<le> 0 then None
         else (let pct = (if limit_val \<noteq> 0 then (spent_val / limit_val) * 100 else 0)
               in if pct \<ge> 100 then Some (Exceeded cat pct)
                  else if pct \<ge> 80 then Some (Nearing cat pct)
                  else None))"

fun render_alerts :: "pylib \<Rightarrow> (string \<rightharpoonup> real) \<Rightarrow> (string \<times> pyval) list \<Rightarrow> alert list" where
  "render_alerts L cat_spend [] = []"
| "render_alerts L cat_spend (item # items) =
     (case alert_for L cat_spend item of
        None \<Rightarrow> render_alerts L cat_spend items
      | Some a \<Rightarrow> a # render_alerts L cat_spend items)"

text \<open>What the dashboard reads as the spend of a category: \<open>cat_spend.get(cat, 0)\<close>.\<close>

definition spent_of :: "(string \<rightharpoonup> real) \<Rightarrow> string \<Rightarrow> real" where
  "spent_of cat_spend cat = (case cat_spend cat of None \<Rightarrow> 0 | Some x \<Rightarrow> x)"

subsection \<open>The database\<close>

text \<open>
  A value as SQLite hands it to Python for a column whose stored type the schema does not
  fix (\<open>reset_expiry INTEGER\<close> keeps a text that is not a number as text).
\<close>

datatype sqlval = SNull | SInt int | SReal real | SText string

fun py_of_sql :: "sqlval \<Rightarrow> pyval" where
  "py_of_sql SNull = PNone"
| "py_of_sql (SInt i) = PInt i"
| "py_of_sql (SReal x) = PFloat x"
| "py_of_sql (SText s) = PStr s"

text \<open>The five tables of \<open>init_db\<close>; a nullable column is an option.\<close>

record user_row =
  usr_id :: nat
  usr_username :: string
  usr_email :: "string option"
  usr_password_hash :: "string option"
  usr_reset_token :: "string option"
  usr_reset_expiry :: sqlval

record family_row =
  fam_id :: nat
  fam_username :: string
  fam_member_name :: "string option"
  fam_relation :: "string option"
  fam_monthly_income :: "real option"
  fam_age :: "int option"
  fam_notes :: "string option"
  fam_is_head :: "int option"
  fam_family_name :: "string option"

record expense_row =
  exp_id :: nat
  exp_username :: string
  exp_date :: "string option"
  exp_amount :: "real option"
  exp_category :: "string option"
  exp_assigned_member :: "string option"
  exp_split_json :: "string option"
  exp_note :: "string option"

record budget_row =
  bud_id :: nat
  bud_username :: string
  bud_main_budget :: "real option"
  bud_category_limits_json :: "string option"

record goal_row =
  goal_id :: nat
  goal_username :: string
  goal_name :: "string option"
  goal_target_amount :: "real option"
  goal_months_to_complete :: "int option"
  goal_created_on :: "string option"

text \<open>
  Each \<open>_seq\<close> field is the largest id the table has ever given out
  (\<open>INTEGER PRIMARY KEY AUTOINCREMENT\<close>): an insert takes the next one.
\<close>

record db =
  users :: "user_row list"
  users_seq :: nat
  family :: "family_row list"
  family_seq :: nat
  expenses :: "expense_row list"
  expenses_seq :: nat
  budgets :: "budget_row list"
  budgets_seq :: nat
  goals :: "goal_row list"
  goals_seq :: nat

text \<open>
  The two limits of SQLite the accessors can meet. A Python int bound to a statement must
  fit a signed 64-bit INTEGER, or \<open>execute\<close> raises OverflowError. A table declared
  AUTOINCREMENT refuses every insert once its counter holds the largest rowid
  (SQLITE_FULL, an \<open>sqlite3.Error\<close>).
\<close>

definition int64 :: "int \<Rightarrow> bool" where
  "int64 i = (- (2 ^ 63) \<le> i \<and> i < 2 ^ 63)"

definition max_rowid :: nat where
  "max_rowid = 2 ^ 63 - 1"

text \<open>An exception that leaves an accessor, for the accessors that catch none.\<close>

datatype py_error = OverflowError

subsection \<open>Password hashing\<close>

text \<open>
  \<^verbatim>\<open>
  def hash_password(plain):
      if not plain:
          return ""
      if HAS_BCRYPT:
          hashed = bcrypt.hashpw(plain.encode("utf-8"), bcrypt.gensalt())
          return hashed.decode("utf-8")
      return hashlib.sha256(plain.encode("utf-8")).hexdigest()
  \<close>
  \<open>salt\<close> is what \<open>bcrypt.gensalt()\<close> returns; \<open>None\<close> is an exception of bcrypt, which
  \<open>hash_password\<close> does not catch.
\<close>

definition hash_password :: "pylib \<Rightarrow> string \<Rightarrow> string \<Rightarrow> string option" where
  "hash_password L salt plain =
     (if plain = [] then Some []
      else if has_bcrypt L then bcrypt_hashpw L plain salt
      else Some (sha256_hexdigest L plain))"

text \<open>
  \<^verbatim>\<open>
  def verify_password(plain, hashed):
      if not hashed:
          return False
      if HAS_BCRYPT:
          try:
              return bcrypt.checkpw(plain.encode("utf-8"), hashed.encode("utf-8"))
          except Exception:
              return False
      return hashlib.sha256(plain.encode("utf-8")).hexdigest() == hashed
  \<close>
\<close>

definition verify_password :: "pylib \<Rightarrow> string \<Rightarrow> string option \<Rightarrow> bool" where
  "verify_password L plain hashed =
     (case hashed of
        None \<Rightarrow> False
      | Some h \<Rightarrow>
          if h = [] then False
          else if has_bcrypt L then (case bcrypt_checkpw L plain h of None \<Rightarrow> False | Some b \<Rightarrow> b)
          else sha256_hexdigest L plain = h)"

subsection \<open>User management\<close>

text \<open>
  \<open>create_user\<close>: the early return on an empty username or password; an exception of
  \<open>hash_password\<close>, the \<open>sqlite3.IntegrityError\<close> of \<open>username TEXT UNIQUE\<close> and an
  exhausted id counter all end in \<open>return False\<close> with nothing committed. The insert names
  three columns, the other two are NULL.
\<close>

definition create_user :: "pylib \<Rightarrow> string \<Rightarrow> db \<Rightarrow> string \<Rightarrow> string option \<Rightarrow> string \<Rightarrow> bool \<times> db" where
  "create_user L salt d username email password =
     (if username = [] \<or> password = [] then (False, d)
      else (case hash_password L salt password of
              None \<Rightarrow> (False, d)
            | Some pw_hash \<Rightarrow>
                if (\<exists>r \<in> set (users d). usr_username r = username) \<or> max_rowid \<le> users_seq d
                then (False, d)
                else (True,
                      d\<lparr>users := users d @
                           [\<lparr>usr_id = users_seq d + 1, usr_username = username,
                             usr_email = Some (or_empty email), usr_password_hash = Some pw_hash,
                             usr_reset_token = None, usr_reset_expiry = SNull\<rparr>],
                         users_seq := users_seq d + 1\<rparr>)))"

text \<open>
  \<open>login_user\<close>: \<open>fetchone\<close> on \<open>WHERE username = ?\<close>, then
  \<open>verify_password(password, pw_hash or "")\<close>.
\<close>

definition login_user :: "pylib \<Rightarrow> db \<Rightarrow> string \<Rightarrow> string \<Rightarrow> bool" where
  "login_user L d username password =
     (if username = [] \<or> password = [] then False
      else (case find (\<lambda>r. usr_username r = username) (users d) of
              None \<Rightarrow> False
            | Some row \<Rightarrow> verify_password L password (Some (or_empty (usr_password_hash row)))))"

subsection \<open>Password reset tokens\<close>

text \<open>\<open>WHERE username = ? OR email = ?\<close>: a NULL email matches nothing.\<close>

definition identifies :: "string \<Rightarrow> user_row \<Rightarrow> bool" where
  "identifies email_or_username r =
     (usr_username r = email_or_username \<or> usr_email r = Some email_or_username)"

text \<open>
  \<^verbatim>\<open>
  def create_reset_token(email_or_username, ttl_seconds=3600):
      cur.execute("SELECT username FROM users WHERE username = ? OR email = ?", ...)
      row = cur.fetchone()
      if not row:
          return None
      username = row["username"]
      token = secrets.token_urlsafe(24)
      expiry = int(time.time()) + int(ttl_seconds)
      cur.execute("UPDATE users SET reset_token = ?, reset_expiry = ? WHERE username = ?",
                  (token, expiry, username))
      return token
  \<close>
  \<open>token\<close> is what \<open>secrets.token_urlsafe(24)\<close> returns and \<open>now\<close> what \<open>time.time()\<close>
  returns. \<open>fetchone\<close> is the first matching row of the table scan. The function catches
  nothing: an expiry outside 64 bits makes the UPDATE raise, and nothing is stored.
\<close>

definition create_reset_token ::
  "db \<Rightarrow> string \<Rightarrow> int \<Rightarrow> string \<Rightarrow> real \<Rightarrow> py_error + (string option \<times> db)" where
  "create_reset_token d email_or_username ttl_seconds token now =
     (case find (identifies email_or_username) (users d) of
        None \<Rightarrow> Inr (None, d)
      | Some row \<Rightarrow>
          (let username = usr_username row;
               expiry = py_trunc now + ttl_seconds
           in if \<not> int64 expiry then Inl OverflowError
              else Inr (Some token,
                        d\<lparr>users := map (\<lambda>r. if usr_username r = username
                                               then r\<lparr>usr_reset_token := Some token,
                                                      usr_reset_expiry := SInt expiry\<rparr>
                                               else r) (users d)\<rparr>)))"

text \<open>
  \<^verbatim>\<open>
      try:
          expiry = int(expiry) if expiry else 0
      except Exception:
          expiry = 0
  \<close>
\<close>

definition expiry_of :: "pylib \<Rightarrow> sqlval \<Rightarrow> int" where
  "expiry_of L e =
     (if truthy (py_of_sql e)
      then (case py_int L (py_of_sql e) of None \<Rightarrow> 0 | Some i \<Rightarrow> i)
      else 0)"

text \<open>
  \<^verbatim>\<open>
  def verify_reset_token(token):
      if not token:
          return None
      cur.execute("SELECT username, reset_expiry FROM users WHERE reset_token = ?", (token,))
      row = cur.fetchone()
      if not row:
          return None
      username, expiry = row["username"], row["reset_expiry"]
      ...
      if expiry and time.time() > expiry:
          return None
      return username
  \<close>
\<close>

definition verify_reset_token :: "pylib \<Rightarrow> db \<Rightarrow> string \<Rightarrow> real \<Rightarrow> string option" where
  "verify_reset_token L d token now =
     (if token = [] then None
      else (case find (\<lambda>r. usr_reset_token r = Some token) (users d) of
              None \<Rightarrow> None
            | Some row \<Rightarrow>
                (let expiry = expiry_of L (usr_reset_expiry row)
                 in if expiry \<noteq> 0 \<and> now > real_of_int expiry then None
                    else Some (usr_username row))))"

text \<open>\<open>UPDATE users SET reset_token = NULL, reset_expiry = NULL WHERE username = ?\<close>\<close>

definition clear_reset_token :: "db \<Rightarrow> string \<Rightarrow> db" where
  "clear_reset_token d username =
     d\<lparr>users := map (\<lambda>r. if usr_username r = username
                           then r\<lparr>usr_reset_token := None, usr_reset_expiry := SNull\<rparr>
                           else r) (users d)\<rparr>"

subsection \<open>Family members\<close>


subsection \<open>Expenses\<close>

text \<open>
  The \<open>split\<close> argument of \<open>add_expense\<close>: \<open>None\<close>, or an object given by what
  \<open>json.dumps\<close> returns for it (\<open>None\<close> when it raises).
\<close>

datatype split_arg = SplitNone | SplitObj "string option"

text \<open>
  \<^verbatim>\<open>
  def add_expense(username, amount, category, assigned_member="", split=None, note="", date=None):
      try:
          if date is None:
              date = time.strftime("%Y-%m-%d")
          try:
              amount_val = float(amount)
          except Exception:
              amount_val = 0.0
          if split is None:
              split_json = ""
          else:
              try:
                  split_json = json.dumps(split)
              except Exception:
                  split_json = ""
          ... INSERT INTO expenses (username, date, amount, category, assigned_member, split_json, note)
              VALUES (username, date, amount_val, category or "", assigned_member or "", split_json, note or "")
          return True
      except Exception:
          return False
  \<close>
  \<open>today\<close> is what \<open>time.strftime("%Y-%m-%d")\<close> returns.
\<close>

definition add_expense ::
  "pylib \<Rightarrow> string \<Rightarrow> db \<Rightarrow> string \<Rightarrow> pyval \<Rightarrow> string option \<Rightarrow> string option \<Rightarrow> split_arg
     \<Rightarrow> string option \<Rightarrow> string option \<Rightarrow> bool \<times> db" where
  "add_expense L today d username amount category assigned_member split note date =
     (let date1 = (case date of None \<Rightarrow> today | Some s \<Rightarrow> s);
          amount_val = (case py_float L amount of None \<Rightarrow> 0 | Some x \<Rightarrow> x);
          split_json =
            (case split of
               SplitNone \<Rightarrow> []
             | SplitObj dumped \<Rightarrow> (case dumped of None \<Rightarrow> [] | Some j \<Rightarrow> j))
      in if max_rowid \<le> expenses_seq d then (False, d)
         else (True,
               d\<lparr>expenses := expenses d @
                    [\<lparr>exp_id = expenses_seq d + 1, exp_username = username, exp_date = Some date1,
                      exp_amount = Some amount_val, exp_category = Some (or_empty category),
                      exp_assigned_member = Some (or_empty assigned_member),
                      exp_split_json = Some split_json, exp_note = Some (or_empty note)\<rparr>],
                  expenses_seq := expenses_seq d + 1\<rparr>))"

subsection \<open>Budgets\<close>

text \<open>
  The \<open>category_limits\<close> argument of \<open>set_budget\<close>: \<open>None\<close>, a str, or another object
  given by what \<open>json.dumps\<close> returns for it (\<open>None\<close> when it raises).
\<close>

datatype limits_arg = LimitsNone | LimitsStr string | LimitsObj "string option"

text \<open>
  \<^verbatim>\<open>
          try:
              mb_val = float(main_budget) if main_budget not in (None, "") else None
          except Exception:
              mb_val = None
  \<close>
\<close>

definition budget_value :: "pylib \<Rightarrow> pyval \<Rightarrow> real option" where
  "budget_value L main_budget =
     (if main_budget = PNone \<or> main_budget = PStr [] then None else py_float L main_budget)"

text \<open>
  \<^verbatim>\<open>
          if category_limits is None:
              cat_json = "{}"
          elif isinstance(category_limits, str):
              try:
                  json.loads(category_limits)
                  cat_json = category_limits
              except Exception:
                  cat_json = "{}"
          else:
              try:
                  cat_json = json.dumps(category_limits)
              except Exception:
                  cat_json = "{}"
  \<close>
\<close>

definition limits_json :: "pylib \<Rightarrow> limits_arg \<Rightarrow> string" where
  "limits_json L category_limits =
     (case category_limits of
        LimitsNone \<Rightarrow> ''{}''
      | LimitsStr s \<Rightarrow> if json_loads_ok L s then s else ''{}''
      | LimitsObj dumped \<Rightarrow> (case dumped of None \<Rightarrow> ''{}'' | Some j \<Rightarrow> j))"

text \<open>
  \<open>set_budget\<close>: after the two coercions,
  \<^verbatim>\<open>
          # delete old (we maintain a single latest row per user)
          cur.execute("DELETE FROM budgets WHERE username = ?", (username,))
          cur.execute("INSERT INTO budgets (username, main_budget, category_limits_json) VALUES (?, ?, ?)",
                      (username, mb_val if mb_val is not None else None, cat_json))
          conn.commit()
          return True
  \<close>
  When the insert raises (an exhausted id counter), the delete is not committed either and
  the function returns \<open>False\<close>.
\<close>

definition set_budget :: "pylib \<Rightarrow> db \<Rightarrow> string \<Rightarrow> pyval \<Rightarrow> limits_arg \<Rightarrow> bool \<times> db" where
  "set_budget L d username main_budget category_limits =
     (let mb_val = budget_value L main_budget;
          cat_json = limits_json L category_limits
      in if max_rowid \<le> budgets_seq d then (False, d)
         else (True,
               d\<lparr>budgets := filter (\<lambda>r. bud_username r \<noteq> username) (budgets d) @
                    [\<lparr>bud_id = budgets_seq d + 1, bud_username = username,
                      bud_main_budget = mb_val, bud_category_limits_json = Some cat_json\<rparr>],
                  budgets_seq := budgets_seq d + 1\<rparr>))"

text \<open>\<open>ORDER BY id DESC LIMIT 1\<close>: the row with the greatest id, if there is a row.\<close>

fun latest_budget :: "budget_row list \<Rightarrow> budget_row option" where
  "latest_budget [] = None"
| "latest_budget (r # rs) =
     (case latest_budget rs of
        None \<Rightarrow> Some r
      | Some m \<Rightarrow> if bud_id r < bud_id m then Some m else Some r)"

record budget_info =
  main_budget :: "real option"
  category_limits_json :: string

text \<open>
  \<^verbatim>\<open>
  def load_budget(username):
      cur.execute("SELECT main_budget, category_limits_json FROM budgets WHERE username = ?
                   ORDER BY id DESC LIMIT 1", (username,))
      row = cur.fetchone()
      if not row:
          return {"main_budget": None, "category_limits_json": "{}"}
      main = row["main_budget"]
      cat_json = row["category_limits_json"] or "{}"
      try:
          main_val = float(main) if main not in (None, "") else None
      except Exception:
          main_val = None
      return {"main_budget": main_val, "category_limits_json": cat_json}
  \<close>
  The column \<open>main_budget REAL\<close> holds a number or NULL, so \<open>float(main)\<close> is \<open>main\<close>.
\<close>

definition load_budget :: "db \<Rightarrow> string \<Rightarrow> budget_info" where
  "load_budget d username =
     (case latest_budget (filter (\<lambda>r. bud_username r = username) (budgets d)) of
        None \<Rightarrow> \<lparr>main_budget = None, category_limits_json = ''{}''\<rparr>
      | Some row \<Rightarrow>
          \<lparr>main_budget = bud_main_budget row,
           category_limits_json =
             (case bud_category_limits_json row of
                None \<Rightarrow> ''{}''
              | Some s \<Rightarrow> if s = [] then ''{}'' else s)\<rparr>)"

subsection \<open>Goals\<close>

text \<open>
  The loop over the four date formats: the first one \<open>datetime.strptime\<close> accepts gives the
  date rewritten as \<open>%Y-%m-%d\<close> (\<open>reformat_date L fmt text\<close>); when none does, the text is
  kept. \<open>created_on\<close> is a str or \<open>None\<close>, as annotated.
\<close>

fun normalize_created_on :: "pylib \<Rightarrow> string list \<Rightarrow> string \<Rightarrow> string" where
  "normalize_created_on L [] created_on = created_on"
| "normalize_created_on L (fmt # fmts) created_on =
     (case reformat_date L fmt created_on of
        Some dt \<Rightarrow> dt
      | None \<Rightarrow> normalize_created_on L fmts created_on)"

text \<open>
  \<open>add_goal\<close>. The two conversions are written in the argument tuple of the insert,
  \<^verbatim>\<open>
          cur.execute("INSERT INTO goals (username, goal_name, target_amount, months_to_complete,
                       created_on) VALUES (?, ?, ?, ?, ?)",
              (username, goal_name or "", float(target_amount or 0.0), int(months or 1), created_on))
  \<close>
  under the function's outer \<open>try\<close> only: when one of them raises, or the insert does
  (months outside 64 bits, an exhausted id counter), nothing is inserted and the function
  returns \<open>False\<close>.
\<close>

definition add_goal ::
  "pylib \<Rightarrow> string \<Rightarrow> db \<Rightarrow> string \<Rightarrow> string option \<Rightarrow> pyval \<Rightarrow> pyval \<Rightarrow> string option \<Rightarrow> bool \<times> db" where
  "add_goal L today d username name target_amount months created_on =
     (let created_on1 =
            (case created_on of
               None \<Rightarrow> today
             | Some s \<Rightarrow> normalize_created_on L [''%Y-%m-%d'', ''%d-%m-%Y'', ''%d/%m/%Y'', ''%Y/%m/%d''] s)
      in (case py_float L (py_or target_amount (PFloat 0)) of
            None \<Rightarrow> (False, d)
          | Some target \<Rightarrow>
              (case py_int L (py_or months (PInt 1)) of
                 None \<Rightarrow> (False, d)
               | Some m \<Rightarrow>
                   if \<not> int64 m \<or> max_rowid \<le> goals_seq d then (False, d)
                   else (True,
                         d\<lparr>goals := goals d @
                              [\<lparr>goal_id = goals_seq d + 1, goal_username = username,
                                goal_name = Some (or_empty name), goal_target_amount = Some target,
                                goal_months_to_complete = Some m,
                                goal_created_on = Some created_on1\<rparr>],
                            goals_seq := goals_seq d + 1\<rparr>))))"

subsection \<open>Analytics: the category breakdown\<close>

text \<open>\<open>str(n)\<close> for an int, and the format \<open>0wd\<close> of an f-string (sign-aware zero padding).\<close>

fun dec_digits :: "nat \<Rightarrow> string" where
  "dec_digits n =
     (if n < 10 then [''0123456789'' ! n]
      else dec_digits (n div 10) @ [''0123456789'' ! (n mod 10)])"

declare dec_digits.simps [simp del]

definition py_str :: "int \<Rightarrow> string" where
  "py_str i = (if i < 0 then CHR ''-'' # dec_digits (nat (- i)) else dec_digits (nat i))"

definition zero_pad :: "nat \<Rightarrow> string \<Rightarrow> string" where
  "zero_pad w s = replicate (w - length s) CHR ''0'' @ s"

definition py_format_0d :: "nat \<Rightarrow> int \<Rightarrow> string" where
  "py_format_0d w i =
     (if i < 0 then CHR ''-'' # zero_pad (w - 1) (dec_digits (nat (- i)))
      else zero_pad w (dec_digits (nat i)))"

text \<open>SQLite's \<open>substr(s, start, len)\<close> for \<open>start \<ge> 1\<close>.\<close>

definition sql_substr :: "string \<Rightarrow> nat \<Rightarrow> nat \<Rightarrow> string" where
  "sql_substr s start len = take len (drop (start - 1) s)"

text \<open>
  \<^verbatim>\<open>
        WHERE username = ?
          AND substr(date, 1, 4) = ?
          AND substr(date, 6, 2) = ?
  \<close>
  A NULL date satisfies no comparison.
\<close>

definition where_month :: "string \<Rightarrow> string \<Rightarrow> string \<Rightarrow> expense_row \<Rightarrow> bool" where
  "where_month username y m r =
     (exp_username r = username \<and>
      (case exp_date r of
         None \<Rightarrow> False
       | Some dt \<Rightarrow> sql_substr dt 1 4 = y \<and> sql_substr dt 6 2 = m))"

text \<open>\<open>SUM\<close> skips NULL and is NULL when it has nothing to add.\<close>

definition sql_sum :: "real option list \<Rightarrow> real option" where
  "sql_sum vs = (let xs = List.map_filter (\<lambda>v. v) vs in if xs = [] then None else Some (sum_list xs))"

text \<open>
  \<open>SELECT category, SUM(amount) ... GROUP BY category\<close>: one row per distinct category of
  the selected rows, NULL being a category of its own. SQLite groups by sorting on the key,
  so the groups come out in ascending order, NULL first.
\<close>

definition select_category_totals :: "db \<Rightarrow> string \<Rightarrow> string \<Rightarrow> string \<Rightarrow> (string option \<times> real option) list" where
  "select_category_totals d username y m =
     (let rows = filter (where_month username y m) (expenses d);
          cats = sort (remdups (map exp_category rows))
      in map (\<lambda>c. (c, sql_sum (map exp_amount (filter (\<lambda>r. exp_category r = c) rows)))) cats)"

text \<open>
  \<^verbatim>\<open>
      out = {}
      for r in rows:
          cat = r["category"] or "Other"
          total = float(r["total"] or 0.0)
          out[cat] = total
      return out
  \<close>
\<close>

fun breakdown_loop :: "(string option \<times> real option) list \<Rightarrow> (string \<rightharpoonup> real) \<Rightarrow> (string \<rightharpoonup> real)" where
  "breakdown_loop [] out = out"
| "breakdown_loop (r # rows) out =
     (let cat = (case fst r of None \<Rightarrow> ''Other'' | Some c \<Rightarrow> if c = [] then ''Other'' else c);
          total = (case snd r of None \<Rightarrow> 0 | Some x \<Rightarrow> x)
      in breakdown_loop rows (out(cat \<mapsto> total)))"

definition category_breakdown :: "db \<Rightarrow> string \<Rightarrow> int \<Rightarrow> int \<Rightarrow> (string \<rightharpoonup> real)" where
  "category_breakdown d username year month =
     breakdown_loop (select_category_totals d username (py_str year) (py_format_0d 2 month)) Map.empty"

text \<open>
  The selection as the spec words it: the rows "whose username equals the given username,
  whose stored date's first 4 characters equal the zero-padded year, and whose characters
  6-7 equal the zero-padded month"; and the amount a row adds to its sum
  (NULL adds nothing).
\<close>

definition spec_in_month :: "string \<Rightarrow> int \<Rightarrow> int \<Rightarrow> expense_row \<Rightarrow> bool" where
  "spec_in_month username year month r =
     (exp_username r = username \<and>
      (case exp_date r of
         None \<Rightarrow> False
       | Some dt \<Rightarrow> take 4 dt = py_format_0d 4 year \<and> take 2 (drop 5 dt) = py_format_0d 2 month))"

text \<open>
  The same selection with the year as \<open>category_breakdown\<close> passes it to the query:
  \<open>str(year)\<close>, which is the zero-padded year from the year 1000 on.
\<close>

definition in_month :: "string \<Rightarrow> int \<Rightarrow> int \<Rightarrow> expense_row \<Rightarrow> bool" where
  "in_month username year month r =
     (exp_username r = username \<and>
      (case exp_date r of
         None \<Rightarrow> False
       | Some dt \<Rightarrow> take 4 dt = py_str year \<and> take 2 (drop 5 dt) = py_format_0d 2 month))"

definition amount_of :: "expense_row \<Rightarrow> real" where
  "amount_of r = (case exp_amount r of None \<Rightarrow> 0 | Some x \<Rightarrow> x)"

subsection \<open>A library instance for the worked examples\<close>

text \<open>
  The examples below are evaluated with this instance of the outside libraries: no string
  parses as a number, no text is JSON or a date, and bcrypt is not installed.
\<close>

definition example_lib :: pylib where
  "example_lib =
     \<lparr>float_of_str = (\<lambda>s. None), int_of_str = (\<lambda>s. None), json_loads_ok = (\<lambda>s. False),
      reformat_date = (\<lambda>f s. None), has_bcrypt = False, bcrypt_hashpw = (\<lambda>p s. None),
      bcrypt_checkpw = (\<lambda>p h. None), sha256_hexdigest = (\<lambda>p. p)\<rparr>"

definition alice :: user_row where
  "alice =
     \<lparr>usr_id = 1, usr_username = ''alice'', usr_email = Some ''alice@example.org'',
      usr_password_hash = Some ''h'', usr_reset_token = None, usr_reset_expiry = SNull\<rparr>"

text \<open>The row \<open>add_expense\<close> stores for \<open>alice\<close>, given an amount, a category and a date.\<close>

definition alice_expense :: "nat \<Rightarrow> string \<Rightarrow> string \<Rightarrow> real \<Rightarrow> expense_row" where
  "alice_expense i dt cat amt =
     \<lparr>exp_id = i, exp_username = ''alice'', exp_date = Some dt, exp_amount = Some amt,
      exp_category = Some cat, exp_assigned_member = Some [], exp_split_json = Some [],
      exp_note = Some []\<rparr>"

text \<open>
  One registered user, and the three expenses of the spec's example for
  \<open>category_breakdown\<close>.
\<close>

definition example_db :: db where
  "example_db =
     \<lparr>users = [alice], users_seq = 1,
      family = [], family_seq = 0,
      expenses =
        [alice_expense 1 ''2024-05-01'' ''Food'' 100,
         alice_expense 2 ''2024-05-15'' ''Food'' 50,
         alice_expense 3 ''2024-06-01'' ''Food'' 10],
      expenses_seq = 3,
      budgets = [], budgets_seq = 0,
      goals = [], goals_seq = 0\<rparr>"

text \<open>The example database with other expense rows.\<close>

definition with_expenses :: "expense_row list \<Rightarrow> db" where
  "with_expenses rows = example_db\<lparr>expenses := rows\<rparr>"

text \<open>The example database after \<open>alice\<close> was given the reset token \<open>tok\<close> with stored expiry \<open>e\<close>.\<close>

definition token_db :: "string \<Rightarrow> sqlval \<Rightarrow> db" where
  "token_db tok e = example_db\<lparr>users := [alice\<lparr>usr_reset_token := Some tok, usr_reset_expiry := e\<rparr>]\<rparr>"

text \<open>A second user, \<open>bob\<close>, registered after \<open>alice\<close>.\<close>

definition bob :: user_row where
  "bob =
     \<lparr>usr_id = 2, usr_username = ''bob'', usr_email = Some ''bob@example.org'',
      usr_password_hash = Some ''h'', usr_reset_token = None, usr_reset_expiry = SNull\<rparr>"

section \<open>Theorems\<close>

subsection \<open>Numbers within the limits\<close>

lemma small_int_floats: "\<bar>i\<bar> < 2 ^ 63 \<Longrightarrow> \<not> float_overflows i"
proof -
  assume "\<bar>i\<bar> < 2 ^ 63"
  moreover have "(2::int) ^ 63 \<le> 2 ^ 1024 - 2 ^ 970" by simp
  ultimately show ?thesis by (simp add: float_overflows_def)
qed

subsection \<open>Alert thresholds\<close>

lemma safe_float_spent:
  "safe_float L (case cat_spend cat of None \<Rightarrow> PInt 0 | Some x \<Rightarrow> PFloat x) 0 = spent_of cat_spend cat"
  by (simp add: safe_float_def spent_of_def small_int_floats split: option.splits)

lemma alert_for_cases:
  "alert_for L cat_spend (cat, limit) =
     (let limit_val = safe_float L limit 0; pct = spent_of cat_spend cat / limit_val * 100
      in if limit_val \<le> 0 then None
         else if pct \<ge> 100 then Some (Exceeded cat pct)
         else if pct \<ge> 80 then Some (Nearing cat pct)
         else None)"
  by (simp add: alert_for_def safe_float_spent Let_def)

lemma render_alerts_set:
  "set (render_alerts L cat_spend items) = {a. \<exists>item \<in> set items. alert_for L cat_spend item = Some a}"
  by (induction items) (auto split: option.splits)

text \<open>
  C2. For every category \<open>cat\<close> with configured limit \<open>limit\<close> (coerced by \<open>safe_float\<close>)
  and every spend: a limit \<open>\<le> 0\<close> produces no alert whatever the spend; otherwise, with
  \<open>pct = spent / limit * 100\<close>, \<open>pct \<ge> 100\<close> produces the "exceeded" alert,
  \<open>80 \<le> pct < 100\<close> the "nearing" alert, and \<open>pct < 80\<close> none. The list
  \<open>render_alerts\<close> shows holds exactly the alerts of its entries.
\<close>

theorem alert_thresholds:
  "(let limit_val = safe_float L limit 0; pct = spent_of cat_spend cat / limit_val * 100
    in (limit_val \<le> 0 \<longrightarrow> alert_for L cat_spend (cat, limit) = None)
     \<and> (0 < limit_val \<and> 100 \<le> pct \<longrightarrow> alert_for L cat_spend (cat, limit) = Some (Exceeded cat pct))
     \<and> (0 < limit_val \<and> 80 \<le> pct \<and> pct < 100 \<longrightarrow> alert_for L cat_spend (cat, limit) = Some (Nearing cat pct))
     \<and> (0 < limit_val \<and> pct < 80 \<longrightarrow> alert_for L cat_spend (cat, limit) = None))
   \<and> set (render_alerts L cat_spend items) =
       {a. \<exists>item \<in> set items. alert_for L cat_spend item = Some a}"
  by (simp add: alert_for_cases render_alerts_set Let_def)

theorem alert_thresholds_witness:
  "alert_for example_lib [''Food'' \<mapsto> 79] (''Food'', PInt 100) = None
   \<and> alert_for example_lib [''Food'' \<mapsto> 80] (''Food'', PInt 100) = Some (Nearing ''Food'' 80)
   \<and> alert_for example_lib [''Food'' \<mapsto> 100] (''Food'', PInt 100) = Some (Exceeded ''Food'' 100)
   \<and> alert_for example_lib [''Food'' \<mapsto> 5000] (''Food'', PInt 0) = None
   \<and> set (render_alerts example_lib [''Food'' \<mapsto> 80] [(''Food'', PInt 100)]) =
       {a. \<exists>item \<in> set [(''Food'', PInt 100)]. alert_for example_lib [''Food'' \<mapsto> 80] item = Some a}"
  using alert_thresholds [of example_lib "PInt 100" "[''Food'' \<mapsto> 79]" "''Food''" "[(''Food'', PInt 100)]"]
        alert_thresholds [of example_lib "PInt 100" "[''Food'' \<mapsto> 80]" "''Food''" "[(''Food'', PInt 100)]"]
        alert_thresholds [of example_lib "PInt 100" "[''Food'' \<mapsto> 100]" "''Food''" "[(''Food'', PInt 100)]"]
        alert_thresholds [of example_lib "PInt 0" "[''Food'' \<mapsto> 5000]" "''Food''" "[(''Food'', PInt 100)]"]
  by (simp add: safe_float_def spent_of_def small_int_floats Let_def)

subsection \<open>Looking rows up\<close>

lemma find_map_comp: "find P (map f xs) = map_option f (find (\<lambda>x. P (f x)) xs)"
  by (induction xs) auto

lemma find_Some_mem: "find P xs = Some x \<Longrightarrow> x \<in> set xs \<and> P x"
  by (induction xs) (auto split: if_splits)

lemma find_cong_set: "(\<And>x. x \<in> set xs \<Longrightarrow> P x = Q x) \<Longrightarrow> find P xs = find Q xs"
  by (induction xs) auto

lemma find_exists: "x \<in> set xs \<Longrightarrow> P x \<Longrightarrow> \<exists>y. find P xs = Some y \<and> P y"
  by (induction xs) auto

subsection \<open>Registration\<close>

text \<open>
  C6. In every state in which a user row with username \<open>u\<close> exists, \<open>create_user(u, e, p)\<close>
  returns false and leaves the database as it was: no row is inserted and the existing row
  (email, password hash, token fields) is unchanged.
\<close>

theorem create_user_duplicate:
  "\<exists>r \<in> set (users d). usr_username r = u \<Longrightarrow> create_user L salt d u e p = (False, d)"
  by (auto simp: create_user_def split: option.splits)

theorem create_user_duplicate_witness:
  "(\<exists>r \<in> set (users example_db). usr_username r = ''alice'')
   \<and> create_user example_lib ''salt'' example_db ''alice'' (Some ''other@example.org'') ''secret''
       = (False, example_db)"
proof -
  have h: "\<exists>r \<in> set (users example_db). usr_username r = ''alice''"
    by (simp add: example_db_def alice_def)
  from h create_user_duplicate [OF h] show ?thesis by simp
qed

subsection \<open>Reset tokens\<close>

lemma expiry_of_SInt: "expiry_of L (SInt e) = e"
  by (simp add: expiry_of_def)

lemma trunc_plus_one: "x < real_of_int (py_trunc x + 1)"
  unfolding py_trunc_def by (auto; linarith)

lemma now_before_expiry:
  assumes "0 \<le> now" "1 \<le> ttl"
  shows "now < real_of_int (py_trunc now + ttl) \<and> py_trunc now + ttl \<noteq> 0"
proof -
  have "real_of_int (py_trunc now + 1) \<le> real_of_int (py_trunc now + ttl)"
    using assms(2) by simp
  with trunc_plus_one [of now] have lt: "now < real_of_int (py_trunc now + ttl)" by linarith
  with assms(1) have "0 < real_of_int (py_trunc now + ttl)" by linarith
  then have "py_trunc now + ttl \<noteq> 0" by auto
  with lt show ?thesis by simp
qed

lemma verify_after_create:
  assumes f: "find (identifies q) (users d) = Some row"
    and tok: "token \<noteq> []"
    and fresh: "\<forall>r \<in> set (users d). usr_reset_token r = Some token \<longrightarrow> usr_username r = usr_username row"
    and fits: "int64 (py_trunc now + ttl)"
  shows "(let expiry = py_trunc now + ttl;
              d' = d\<lparr>users := map (\<lambda>r. if usr_username r = usr_username row
                                          then r\<lparr>usr_reset_token := Some token,
                                                 usr_reset_expiry := SInt expiry\<rparr>
                                          else r) (users d)\<rparr>
          in create_reset_token d q ttl token now = Inr (Some token, d')
             \<and> verify_reset_token L d' token t =
                 (if expiry \<noteq> 0 \<and> real_of_int expiry < t then None else Some (usr_username row)))"
proof -
  let ?u = "usr_username row"
  let ?e = "py_trunc now + ttl"
  let ?upd = "\<lambda>r. if usr_username r = ?u then r\<lparr>usr_reset_token := Some token, usr_reset_expiry := SInt ?e\<rparr> else r"
  have c: "create_reset_token d q ttl token now = Inr (Some token, d\<lparr>users := map ?upd (users d)\<rparr>)"
    using f fits by (simp add: create_reset_token_def Let_def)
  have mem: "row \<in> set (users d)" using find_Some_mem [OF f] by simp
  have eq: "find (\<lambda>r. usr_reset_token (?upd r) = Some token) (users d) = find (\<lambda>r. usr_username r = ?u) (users d)"
    by (rule find_cong_set) (use fresh in auto)
  obtain y where y: "find (\<lambda>r. usr_username r = ?u) (users d) = Some y" "usr_username y = ?u"
    using find_exists [OF mem, of "\<lambda>r. usr_username r = ?u"] by auto
  have fnd: "find (\<lambda>r. usr_reset_token r = Some token) (map ?upd (users d)) = Some (?upd y)"
    by (simp add: find_map_comp eq y)
  have "verify_reset_token L (d\<lparr>users := map ?upd (users d)\<rparr>) token t =
          (if ?e \<noteq> 0 \<and> real_of_int ?e < t then None else Some ?u)"
    using tok y(2) by (simp add: verify_reset_token_def fnd expiry_of_SInt Let_def)
  with c show ?thesis by (simp add: Let_def)
qed

lemma verify_None_iff:
  "verify_reset_token L d token t = None \<longleftrightarrow>
     token = [] \<or>
     (case find (\<lambda>r. usr_reset_token r = Some token) (users d) of
        None \<Rightarrow> True
      | Some r \<Rightarrow> expiry_of L (usr_reset_expiry r) \<noteq> 0 \<and> real_of_int (expiry_of L (usr_reset_expiry r)) < t)"
  by (simp add: verify_reset_token_def Let_def split: option.splits)

text \<open>
  As stated, C9 fails on two kinds of rows whose token matches and whose expiry is NULL.
  The empty token is refused before the lookup, also when a row stores it. And the lookup
  returns the first row that stores the token: \<open>bob\<close>'s row comes after \<open>alice\<close>'s, which
  stores the same token with the expiry 100, so at time 200 the answer is null and at time
  50 it is \<open>alice\<close>, never \<open>bob\<close>.
\<close>

theorem token_without_expiry_counterexample:
  "verify_reset_token example_lib (token_db [] SNull) [] 50 = None
   \<and> verify_reset_token example_lib
        (example_db\<lparr>users := [alice\<lparr>usr_reset_token := Some ''tok'', usr_reset_expiry := SInt 100\<rparr>,
                               bob\<lparr>usr_reset_token := Some ''tok'', usr_reset_expiry := SNull\<rparr>]\<rparr>)
        ''tok'' 200 = None
   \<and> verify_reset_token example_lib
        (example_db\<lparr>users := [alice\<lparr>usr_reset_token := Some ''tok'', usr_reset_expiry := SInt 100\<rparr>,
                               bob\<lparr>usr_reset_token := Some ''tok'', usr_reset_expiry := SNull\<rparr>]\<rparr>)
        ''tok'' 50 = Some ''alice''"
  by (simp add: verify_reset_token_def token_db_def alice_def bob_def expiry_of_def)

text \<open>
  C9, as the source has it. Let the token be non-empty and \<open>row\<close> the first stored row whose
  \<open>reset_token\<close> equals it (the row the lookup returns). If its \<open>reset_expiry\<close> is NULL, zero,
  or a text that does not parse as an integer, \<open>verify_reset_token\<close> returns the row's
  username at every time \<open>now\<close>: the token never expires.
\<close>

theorem token_without_expiry_never_expires:
  assumes "token \<noteq> []"
    and "find (\<lambda>r. usr_reset_token r = Some token) (users d) = Some row"
    and "usr_reset_expiry row = SNull \<or> usr_reset_expiry row = SInt 0 \<or> usr_reset_expiry row = SReal 0
         \<or> (\<exists>s. usr_reset_expiry row = SText s \<and> int_of_str L s = None)"
  shows "verify_reset_token L d token now = Some (usr_username row)"
  using assms by (auto simp: verify_reset_token_def expiry_of_def Let_def)

theorem token_without_expiry_never_expires_witness:
  "''tok'' \<noteq> []
   \<and> find (\<lambda>r. usr_reset_token r = Some ''tok'') (users (token_db ''tok'' SNull))
       = Some (alice\<lparr>usr_reset_token := Some ''tok'', usr_reset_expiry := SNull\<rparr>)
   \<and> verify_reset_token example_lib (token_db ''tok'' SNull) ''tok'' 4102444800 = Some ''alice''"
proof -
  let ?row = "alice\<lparr>usr_reset_token := Some ''tok'', usr_reset_expiry := SNull\<rparr>"
  have h1: "''tok'' \<noteq> []" by simp
  have h2: "find (\<lambda>r. usr_reset_token r = Some ''tok'') (users (token_db ''tok'' SNull)) = Some ?row"
    by (simp add: token_db_def)
  have h3: "usr_reset_expiry ?row = SNull \<or> usr_reset_expiry ?row = SInt 0 \<or> usr_reset_expiry ?row = SReal 0
         \<or> (\<exists>s. usr_reset_expiry ?row = SText s \<and> int_of_str example_lib s = None)"
    by simp
  have "verify_reset_token example_lib (token_db ''tok'' SNull) ''tok'' 4102444800 = Some (usr_username ?row)"
    by (rule token_without_expiry_never_expires [OF h1 h2 h3])
  then have "verify_reset_token example_lib (token_db ''tok'' SNull) ''tok'' 4102444800 = Some ''alice''"
    by (simp add: alice_def)
  with h1 h2 show ?thesis by blast
qed

text \<open>
  The sentence "null exactly when the token matches no stored row or the current time is
  strictly greater than the stored expiry" fails on a stored expiry of zero: at time 1 the
  token of \<open>alice\<close> with expiry 0 is still accepted. It also fails on the empty token, which
  is refused although a row stores it and its expiry 100 has not passed.
\<close>

theorem reset_token_expiry_counterexample:
  "(0::real) < 1
   \<and> verify_reset_token example_lib (token_db ''tok'' (SInt 0)) ''tok'' 1 = Some ''alice''
   \<and> verify_reset_token example_lib (token_db [] (SInt 100)) [] 1 = None"
  by (simp add: verify_reset_token_def token_db_def alice_def expiry_of_def)

text \<open>
  C4, as the source has it.
  (1) Let \<open>row\<close> be the user the identifier selects (the first row whose username or email
  equals it), the generated token non-empty and not already the reset token of another
  user, and the expiry \<open>int(now) + ttl\<close> within 64 bits. Then \<open>create_reset_token\<close> returns
  the token and stores it with that expiry on the user's row, changing nothing else; and
  on the resulting database \<open>verify_reset_token\<close> of the token returns the user's username at
  every time \<open>t\<close> up to the expiry, and null at every later time (unless the expiry is 0).
  (2) With \<open>now \<ge> 0\<close> and \<open>ttl \<ge> 1\<close> the expiry is non-zero and later than \<open>now\<close>: the token
  verifies immediately and is refused once the expiry has passed.
  (3) When no user matches the identifier, \<open>create_reset_token\<close> returns null and stores
  nothing.
  (4) On every database, \<open>verify_reset_token\<close> returns null exactly when the token is empty,
  or no row stores it, or the stored expiry of the first row that stores it, coerced to an
  integer, is non-zero and strictly less than the current time.
\<close>

theorem reset_token_roundtrip_and_expiry:
  "(find (identifies q) (users d) = Some row \<and> token \<noteq> []
      \<and> (\<forall>r \<in> set (users d). usr_reset_token r = Some token \<longrightarrow> usr_username r = usr_username row)
      \<and> int64 (py_trunc now + ttl)
    \<longrightarrow> (let expiry = py_trunc now + ttl;
              d' = d\<lparr>users := map (\<lambda>r. if usr_username r = usr_username row
                                          then r\<lparr>usr_reset_token := Some token,
                                                 usr_reset_expiry := SInt expiry\<rparr>
                                          else r) (users d)\<rparr>
          in create_reset_token d q ttl token now = Inr (Some token, d')
             \<and> verify_reset_token L d' token t =
                 (if expiry \<noteq> 0 \<and> real_of_int expiry < t then None else Some (usr_username row))))
   \<and> (0 \<le> now \<and> 1 \<le> ttl \<longrightarrow> now < real_of_int (py_trunc now + ttl) \<and> py_trunc now + ttl \<noteq> 0)
   \<and> (find (identifies q) (users d) = None \<longrightarrow> create_reset_token d q ttl token now = Inr (None, d))
   \<and> (verify_reset_token L d2 token2 t2 = None \<longleftrightarrow>
        token2 = [] \<or>
        (case find (\<lambda>r. usr_reset_token r = Some token2) (users d2) of
           None \<Rightarrow> True
         | Some r \<Rightarrow> expiry_of L (usr_reset_expiry r) \<noteq> 0
                    \<and> real_of_int (expiry_of L (usr_reset_expiry r)) < t2))"
proof -
  have "find (identifies q) (users d) = None \<Longrightarrow> create_reset_token d q ttl token now = Inr (None, d)"
    by (simp add: create_reset_token_def)
  then show ?thesis
    using verify_after_create [of q d row token now ttl L t] now_before_expiry [of now ttl]
          verify_None_iff [of L d2 token2 t2]
    by blast
qed

theorem reset_token_roundtrip_and_expiry_witness:
  "find (identifies ''alice@example.org'') (users example_db) = Some alice
   \<and> create_reset_token example_db ''alice@example.org'' 3600 ''tok'' 1700000000
       = Inr (Some ''tok'', token_db ''tok'' (SInt 1700003600))
   \<and> verify_reset_token example_lib (token_db ''tok'' (SInt 1700003600)) ''tok'' 1700000000 = Some ''alice''
   \<and> verify_reset_token example_lib (token_db ''tok'' (SInt 1700003600)) ''tok'' 1700003600 = Some ''alice''
   \<and> verify_reset_token example_lib (token_db ''tok'' (SInt 1700003600)) ''tok'' 1700003601 = None"
proof -
  have h1: "find (identifies ''alice@example.org'') (users example_db) = Some alice"
    by (simp add: example_db_def identifies_def alice_def)
  have h: "find (identifies ''alice@example.org'') (users example_db) = Some alice \<and> ''tok'' \<noteq> []
      \<and> (\<forall>r \<in> set (users example_db). usr_reset_token r = Some ''tok'' \<longrightarrow> usr_username r = usr_username alice)
      \<and> int64 (py_trunc 1700000000 + 3600)"
    using h1 by (simp add: example_db_def int64_def py_trunc_def)
  have e: "py_trunc 1700000000 + 3600 = 1700003600" by (simp add: py_trunc_def)
  have d': "example_db\<lparr>users := map (\<lambda>r. if usr_username r = usr_username alice
                                          then r\<lparr>usr_reset_token := Some ''tok'',
                                                 usr_reset_expiry := SInt (py_trunc 1700000000 + 3600)\<rparr>
                                          else r) (users example_db)\<rparr>
            = token_db ''tok'' (SInt 1700003600)"
    by (simp add: e token_db_def example_db_def)
  note T = reset_token_roundtrip_and_expiry
    [of "''alice@example.org''" example_db alice "''tok''" 1700000000 3600 example_lib, unfolded Let_def d']
  have R: "create_reset_token example_db ''alice@example.org'' 3600 ''tok'' 1700000000
             = Inr (Some ''tok'', token_db ''tok'' (SInt 1700003600))
           \<and> verify_reset_token example_lib (token_db ''tok'' (SInt 1700003600)) ''tok'' t =
               (if py_trunc 1700000000 + 3600 \<noteq> 0 \<and> real_of_int (py_trunc 1700000000 + 3600) < t
                then None else Some (usr_username alice))" for t
    using T [of t] h by blast
  from R [of 1700000000] R [of 1700003600] R [of 1700003601] h1 show ?thesis
    by (simp add: e alice_def)
qed

subsection \<open>Budgets\<close>

lemma budget_value_cases:
  "budget_value L v =
     (case v of
        PNone \<Rightarrow> None
      | PBool b \<Rightarrow> Some (if b then 1 else 0)
      | PInt i \<Rightarrow> if 2 ^ 1024 - 2 ^ 970 \<le> \<bar>i\<bar> then None else Some (real_of_int i)
      | PFloat x \<Rightarrow> Some x
      | PStr s \<Rightarrow> if s = [] then None else float_of_str L s
      | PObj t \<Rightarrow> None)"
  by (cases v) (simp_all add: budget_value_def float_overflows_def)

lemma set_budget_True:
  "set_budget L d u v c = (True, d') \<longleftrightarrow>
     budgets_seq d < max_rowid \<and>
     d' = d\<lparr>budgets := filter (\<lambda>r. bud_username r \<noteq> u) (budgets d) @
                [\<lparr>bud_id = budgets_seq d + 1, bud_username = u, bud_main_budget = budget_value L v,
                  bud_category_limits_json = Some (limits_json L c)\<rparr>],
              budgets_seq := budgets_seq d + 1\<rparr>"
  by (auto simp: set_budget_def Let_def)

text \<open>
  C3. \<open>set_budget\<close> is a full replace. After two successive successful calls
  \<open>set_budget(u, v1, c1); set_budget(u, v2, c2)\<close> the database differs from the one before
  them only in the budgets table: the rows of other users are as they were, and \<open>u\<close> has
  exactly one row, which holds the values of the second call, the main budget as coerced
  (\<open>None\<close> and the empty text give NULL, a number is stored as a float, a text as what it
  parses to, anything that does not convert gives NULL) and the limits as serialised (a
  JSON text as given, another object as \<open>json.dumps\<close> writes it, \<open>{}\<close> for \<open>None\<close> and
  for what is not JSON). \<open>load_budget(u)\<close> returns these two values (reading an empty
  limits text as \<open>{}\<close>); nothing of \<open>v1\<close>, \<open>c1\<close> or of older rows of \<open>u\<close> is left. A call
  succeeds exactly when the table can still give out an id.
\<close>

theorem set_budget_replaces:
  "(set_budget L d u v1 c1 = (True, d1) \<and> set_budget L d1 u v2 c2 = (True, d2) \<longrightarrow>
     (let mb = (case v2 of
                  PNone \<Rightarrow> None
                | PBool b \<Rightarrow> Some (if b then 1 else 0)
                | PInt i \<Rightarrow> if 2 ^ 1024 - 2 ^ 970 \<le> \<bar>i\<bar> then None else Some (real_of_int i)
                | PFloat x \<Rightarrow> Some x
                | PStr s \<Rightarrow> if s = [] then None else float_of_str L s
                | PObj t \<Rightarrow> None);
          cj = (case c2 of
                  LimitsNone \<Rightarrow> ''{}''
                | LimitsStr s \<Rightarrow> if json_loads_ok L s then s else ''{}''
                | LimitsObj dumped \<Rightarrow> (case dumped of None \<Rightarrow> ''{}'' | Some j \<Rightarrow> j));
          row = \<lparr>bud_id = budgets_seq d + 2, bud_username = u, bud_main_budget = mb,
                 bud_category_limits_json = Some cj\<rparr>
      in d2 = d\<lparr>budgets := filter (\<lambda>r. bud_username r \<noteq> u) (budgets d) @ [row],
                budgets_seq := budgets_seq d + 2\<rparr>
         \<and> filter (\<lambda>r. bud_username r = u) (budgets d2) = [row]
         \<and> filter (\<lambda>r. bud_username r \<noteq> u) (budgets d2) = filter (\<lambda>r. bud_username r \<noteq> u) (budgets d)
         \<and> load_budget d2 u = \<lparr>main_budget = mb, category_limits_json = (if cj = [] then ''{}'' else cj)\<rparr>))
   \<and> (fst (set_budget L d u v1 c1) \<longleftrightarrow> budgets_seq d < max_rowid)"
proof (intro conjI impI)
  assume a: "set_budget L d u v1 c1 = (True, d1) \<and> set_budget L d1 u v2 c2 = (True, d2)"
  let ?mb = "budget_value L v2"
  let ?cj = "limits_json L c2"
  let ?row = "\<lparr>bud_id = budgets_seq d + 2, bud_username = u, bud_main_budget = ?mb,
                bud_category_limits_json = Some ?cj\<rparr>"
  from a have d1: "d1 = d\<lparr>budgets := filter (\<lambda>r. bud_username r \<noteq> u) (budgets d) @
                [\<lparr>bud_id = budgets_seq d + 1, bud_username = u, bud_main_budget = budget_value L v1,
                  bud_category_limits_json = Some (limits_json L c1)\<rparr>],
              budgets_seq := budgets_seq d + 1\<rparr>"
    by (simp add: set_budget_True)
  from a have "d2 = d1\<lparr>budgets := filter (\<lambda>r. bud_username r \<noteq> u) (budgets d1) @
                [\<lparr>bud_id = budgets_seq d1 + 1, bud_username = u, bud_main_budget = ?mb,
                  bud_category_limits_json = Some ?cj\<rparr>],
              budgets_seq := budgets_seq d1 + 1\<rparr>"
    by (simp add: set_budget_True)
  then have d2: "d2 = d\<lparr>budgets := filter (\<lambda>r. bud_username r \<noteq> u) (budgets d) @ [?row],
                         budgets_seq := budgets_seq d + 2\<rparr>"
    by (simp add: d1)
  have own: "filter (\<lambda>r. bud_username r = u) (budgets d2) = [?row]"
    by (simp add: d2)
  have others: "filter (\<lambda>r. bud_username r \<noteq> u) (budgets d2) = filter (\<lambda>r. bud_username r \<noteq> u) (budgets d)"
    by (simp add: d2)
  have load: "load_budget d2 u = \<lparr>main_budget = ?mb, category_limits_json = (if ?cj = [] then ''{}'' else ?cj)\<rparr>"
    by (simp add: load_budget_def own)
  have cj: "(case c2 of
                  LimitsNone \<Rightarrow> ''{}''
                | LimitsStr s \<Rightarrow> if json_loads_ok L s then s else ''{}''
                | LimitsObj dumped \<Rightarrow> (case dumped of None \<Rightarrow> ''{}'' | Some j \<Rightarrow> j)) = ?cj"
    by (simp add: limits_json_def)
  have mb: "(case v2 of
                  PNone \<Rightarrow> None
                | PBool b \<Rightarrow> Some (if b then 1 else 0)
                | PInt i \<Rightarrow> if 2 ^ 1024 - 2 ^ 970 \<le> \<bar>i\<bar> then None else Some (real_of_int i)
                | PFloat x \<Rightarrow> Some x
                | PStr s \<Rightarrow> if s = [] then None else float_of_str L s
                | PObj t \<Rightarrow> None) = ?mb"
    by (simp add: budget_value_cases)
  show "(let mb = (case v2 of
                  PNone \<Rightarrow> None
                | PBool b \<Rightarrow> Some (if b then 1 else 0)
                | PInt i \<Rightarrow> if 2 ^ 1024 - 2 ^ 970 \<le> \<bar>i\<bar> then None else Some (real_of_int i)
                | PFloat x \<Rightarrow> Some x
                | PStr s \<Rightarrow> if s = [] then None else float_of_str L s
                | PObj t \<Rightarrow> None);
          cj = (case c2 of
                  LimitsNone \<Rightarrow> ''{}''
                | LimitsStr s \<Rightarrow> if json_loads_ok L s then s else ''{}''
                | LimitsObj dumped \<Rightarrow> (case dumped of None \<Rightarrow> ''{}'' | Some j \<Rightarrow> j));
          row = \<lparr>bud_id = budgets_seq d + 2, bud_username = u, bud_main_budget = mb,
                 bud_category_limits_json = Some cj\<rparr>
      in d2 = d\<lparr>budgets := filter (\<lambda>r. bud_username r \<noteq> u) (budgets d) @ [row],
                budgets_seq := budgets_seq d + 2\<rparr>
         \<and> filter (\<lambda>r. bud_username r = u) (budgets d2) = [row]
         \<and> filter (\<lambda>r. bud_username r \<noteq> u) (budgets d2) = filter (\<lambda>r. bud_username r \<noteq> u) (budgets d)
         \<and> load_budget d2 u = \<lparr>main_budget = mb, category_limits_json = (if cj = [] then ''{}'' else cj)\<rparr>)"
    unfolding Let_def mb cj
    using d2 own others load by blast
next
  show "fst (set_budget L d u v1 c1) \<longleftrightarrow> budgets_seq d < max_rowid"
    by (simp add: set_budget_def Let_def)
qed

theorem set_budget_replaces_witness:
  "set_budget example_lib example_db ''alice'' (PInt 500) LimitsNone
     = (True, example_db\<lparr>budgets := [\<lparr>bud_id = 1, bud_username = ''alice'', bud_main_budget = Some 500,
                                        bud_category_limits_json = Some ''{}''\<rparr>],
                          budgets_seq := 1\<rparr>)
   \<and> set_budget example_lib
        (example_db\<lparr>budgets := [\<lparr>bud_id = 1, bud_username = ''alice'', bud_main_budget = Some 500,
                                   bud_category_limits_json = Some ''{}''\<rparr>],
                     budgets_seq := 1\<rparr>)
        ''alice'' (PFloat 750) (LimitsObj (Some ''{\"Food\": 100}''))
     = (True, example_db\<lparr>budgets := [\<lparr>bud_id = 2, bud_username = ''alice'', bud_main_budget = Some 750,
                                        bud_category_limits_json = Some ''{\"Food\": 100}''\<rparr>],
                          budgets_seq := 2\<rparr>)
   \<and> load_budget
        (example_db\<lparr>budgets := [\<lparr>bud_id = 2, bud_username = ''alice'', bud_main_budget = Some 750,
                                   bud_category_limits_json = Some ''{\"Food\": 100}''\<rparr>],
                     budgets_seq := 2\<rparr>)
        ''alice''
     = \<lparr>main_budget = Some 750, category_limits_json = ''{\"Food\": 100}''\<rparr>"
proof -
  let ?d1 = "example_db\<lparr>budgets := [\<lparr>bud_id = 1, bud_username = ''alice'', bud_main_budget = Some 500,
                                        bud_category_limits_json = Some ''{}''\<rparr>],
                          budgets_seq := 1\<rparr>"
  let ?d2 = "example_db\<lparr>budgets := [\<lparr>bud_id = 2, bud_username = ''alice'', bud_main_budget = Some 750,
                                        bud_category_limits_json = Some ''{\"Food\": 100}''\<rparr>],
                          budgets_seq := 2\<rparr>"
  have s1: "set_budget example_lib example_db ''alice'' (PInt 500) LimitsNone = (True, ?d1)"
    by (simp add: set_budget_def budget_value_def limits_json_def example_db_def max_rowid_def
          small_int_floats)
  have s2: "set_budget example_lib ?d1 ''alice'' (PFloat 750) (LimitsObj (Some ''{\"Food\": 100}'')) = (True, ?d2)"
    by (simp add: set_budget_def budget_value_def limits_json_def example_db_def max_rowid_def)
  note T = set_budget_replaces [of example_lib example_db "''alice''" "PInt 500" LimitsNone ?d1
                                   "PFloat 750" "LimitsObj (Some ''{\"Food\": 100}'')" ?d2]
  from T have "set_budget example_lib example_db ''alice'' (PInt 500) LimitsNone = (True, ?d1)
      \<and> set_budget example_lib ?d1 ''alice'' (PFloat 750) (LimitsObj (Some ''{\"Food\": 100}'')) = (True, ?d2)
      \<longrightarrow> load_budget ?d2 ''alice'' =
            \<lparr>main_budget = Some 750,
             category_limits_json =
               (if ''{\"Food\": 100}'' = [] then ''{}'' else ''{\"Food\": 100}'')\<rparr>"
    by (simp only: Let_def pyval.case limits_arg.case option.case) blast
  with s1 s2 have "load_budget ?d2 ''alice'' = \<lparr>main_budget = Some 750, category_limits_json = ''{\"Food\": 100}''\<rparr>"
    by simp
  with s1 s2 show ?thesis by blast
qed

subsection \<open>Category breakdown\<close>

lemma dec_digits_nonempty: "dec_digits n \<noteq> []"
  by (subst dec_digits.simps) simp

lemma length_dec_digits: "10 ^ k \<le> n \<Longrightarrow> k < length (dec_digits n)"
proof (induction k arbitrary: n)
  case 0
  then show ?case using dec_digits_nonempty [of n] by (cases "dec_digits n") auto
next
  case (Suc k)
  then have ge: "10 \<le> n" and div: "10 ^ k \<le> n div 10"
    by (auto simp: less_eq_div_iff_mult_less_eq intro: order_trans [rotated])
  have "dec_digits n = dec_digits (n div 10) @ [''0123456789'' ! (n mod 10)]"
    using ge by (subst dec_digits.simps) simp
  with Suc.IH [OF div] show ?case by simp
qed

text \<open>From the year 1000 on, \<open>str(year)\<close> is the year zero-padded to four digits.\<close>

lemma format_year: "1000 \<le> y \<Longrightarrow> py_format_0d 4 y = py_str y"
proof -
  assume y: "1000 \<le> y"
  then have "10 ^ 3 \<le> nat y" by simp
  from length_dec_digits [OF this] have "4 \<le> length (dec_digits (nat y))" by simp
  with y show ?thesis by (simp add: py_format_0d_def py_str_def zero_pad_def)
qed

lemma where_month_in_month:
  "where_month u (py_str year) (py_format_0d 2 month) r = in_month u year month r"
  by (simp add: where_month_def in_month_def sql_substr_def split: option.splits)

lemma in_month_spec: "1000 \<le> year \<Longrightarrow> in_month u year month r = spec_in_month u year month r"
  by (simp add: in_month_def spec_in_month_def format_year split: option.splits)

text \<open>
  The loop at a key that only one category maps to: the last row of that category decides,
  and the query returns one row per category.
\<close>

lemma breakdown_loop_key:
  assumes "distinct (map fst rows)"
    and ne: "c \<noteq> []"
    and "\<forall>k \<in> fst ` set rows.
           (case k of None \<Rightarrow> ''Other'' | Some c' \<Rightarrow> if c' = [] then ''Other'' else c') = c \<longrightarrow> k = Some c"
  shows "breakdown_loop rows out c =
           (case map_of rows (Some c) of
              None \<Rightarrow> out c
            | Some t \<Rightarrow> Some (case t of None \<Rightarrow> 0 | Some x \<Rightarrow> x))"
  using assms
proof (induction rows arbitrary: out)
  case Nil
  then show ?case by simp
next
  case (Cons r rows)
  obtain k t where r: "r = (k, t)" by (cases r)
  let ?key = "case k of None \<Rightarrow> ''Other'' | Some c' \<Rightarrow> if c' = [] then ''Other'' else c'"
  let ?tot = "case t of None \<Rightarrow> 0 | Some x \<Rightarrow> x"
  have step: "breakdown_loop (r # rows) out = breakdown_loop rows (out(?key \<mapsto> ?tot))"
    by (simp add: r Let_def)
  have d: "distinct (map fst rows)" and notin: "k \<notin> fst ` set rows"
    using Cons.prems(1) r by simp_all
  have keys: "\<forall>k \<in> fst ` set rows.
           (case k of None \<Rightarrow> ''Other'' | Some c' \<Rightarrow> if c' = [] then ''Other'' else c') = c \<longrightarrow> k = Some c"
    using Cons.prems(3) by simp
  have kk: "?key = c \<longrightarrow> k = Some c"
    using Cons.prems(3) r by simp
  note IH = Cons.IH [OF d ne keys, of "out(?key \<mapsto> ?tot)"]
  show ?case
  proof (cases "k = Some c")
    case True
    with notin have none: "map_of rows (Some c) = None"
      by (simp add: map_of_eq_None_iff)
    have "?key = c" using True ne by simp
    then show ?thesis unfolding step IH by (simp add: none r True)
  next
    case False
    with kk have ne: "?key \<noteq> c" by blast
    have m: "map_of (r # rows) (Some c) = map_of rows (Some c)"
      using False r by simp
    have u: "(out(?key \<mapsto> ?tot)) c = out c" using ne by simp
    show ?thesis unfolding step IH m u ..
  qed
qed

lemma breakdown_loop_empty_key: "breakdown_loop rows out [] = out []"
  by (induction rows arbitrary: out) (auto simp: Let_def split: option.splits)

lemma map_of_graph: "map_of (map (\<lambda>k. (k, f k)) ks) x = (if x \<in> set ks then Some (f x) else None)"
  by (induction ks) auto

lemma sql_sum_total:
  "(case sql_sum vs of None \<Rightarrow> 0 | Some x \<Rightarrow> x) =
     sum_list (map (\<lambda>v. case v of None \<Rightarrow> 0 | Some x \<Rightarrow> x) vs)"
proof -
  have "sum_list (List.map_filter (\<lambda>v. v) vs) =
          sum_list (map (\<lambda>v. case v of None \<Rightarrow> 0 | Some x \<Rightarrow> x) vs)"
    by (induction vs) (auto simp: List.map_filter_simps split: option.splits)
  then show ?thesis by (auto simp: sql_sum_def Let_def)
qed

lemma breakdown_key:
  assumes ne: "c \<noteq> []"
    and unc: "c = ''Other'' \<longrightarrow>
              filter (\<lambda>r. where_month u y m r \<and> (exp_category r = None \<or> exp_category r = Some []))
                (expenses d) = []"
  shows "breakdown_loop (select_category_totals d u y m) Map.empty c =
     (let rs = filter (\<lambda>r. where_month u y m r \<and> exp_category r = Some c) (expenses d)
      in if rs = [] then None else Some (sum_list (map amount_of rs)))"
proof -
  let ?rows = "filter (where_month u y m) (expenses d)"
  let ?cats = "sort (remdups (map exp_category ?rows))"
  let ?f = "\<lambda>c. sql_sum (map exp_amount (filter (\<lambda>r. exp_category r = c) ?rows))"
  have sel: "select_category_totals d u y m = map (\<lambda>c. (c, ?f c)) ?cats"
    by (simp add: select_category_totals_def Let_def)
  have dist: "distinct (map fst (select_category_totals d u y m))"
    by (simp add: sel comp_def)
  have flt: "filter (\<lambda>r. exp_category r = Some c) ?rows =
               filter (\<lambda>r. where_month u y m r \<and> exp_category r = Some c) (expenses d)"
    by (simp add: conj_commute)
  have mem: "Some c \<in> set ?cats \<longleftrightarrow> filter (\<lambda>r. exp_category r = Some c) ?rows \<noteq> []"
    by (force simp: filter_empty_conv)
  have tot: "(case ?f (Some c) of None \<Rightarrow> 0 | Some x \<Rightarrow> x) =
               sum_list (map amount_of (filter (\<lambda>r. exp_category r = Some c) ?rows))"
    by (simp add: sql_sum_total amount_of_def [abs_def] comp_def)
  have keys: "\<forall>k \<in> fst ` set (select_category_totals d u y m).
           (case k of None \<Rightarrow> ''Other'' | Some c' \<Rightarrow> if c' = [] then ''Other'' else c') = c \<longrightarrow> k = Some c"
  proof (intro ballI impI)
    fix k
    assume k: "k \<in> fst ` set (select_category_totals d u y m)"
      and key: "(case k of None \<Rightarrow> ''Other'' | Some c' \<Rightarrow> if c' = [] then ''Other'' else c') = c"
    from k obtain r where r: "r \<in> set (expenses d)" "where_month u y m r" "exp_category r = k"
      by (auto simp: sel)
    show "k = Some c"
    proof (cases "k = None \<or> k = Some []")
      case True
      with key have "c = ''Other''" by auto
      with unc have "filter (\<lambda>r. where_month u y m r \<and> (exp_category r = None \<or> exp_category r = Some []))
                (expenses d) = []" by simp
      with r True show ?thesis by (auto simp: filter_empty_conv)
    next
      case False
      with key show ?thesis by (cases k) auto
    qed
  qed
  have "map_of (select_category_totals d u y m) (Some c) =
          (if Some c \<in> set ?cats then Some (?f (Some c)) else None)"
    unfolding sel by (rule map_of_graph)
  then show ?thesis
    using tot mem flt
    by (simp add: breakdown_loop_key [OF dist ne keys] Let_def del: set_sort set_remdups set_filter)
qed

lemmas breakdown_eval =
  category_breakdown_def select_category_totals_def where_month_def sql_substr_def
  py_str_def py_format_0d_def zero_pad_def dec_digits.simps sql_sum_def List.map_filter_simps
  alice_expense_def with_expenses_def

text \<open>
  As stated, C1 fails twice. An expense without category is not summed under its own
  (empty) category but appears under \<open>Other\<close>, which then holds an amount that no row of
  the category \<open>Other\<close> has; and the year is matched as \<open>str(year)\<close>, without padding, so
  the row dated \<open>0999-05-01\<close>, which the zero-padded year 999 and month 5 select, is not in
  the breakdown for (999, 5).
\<close>

theorem category_breakdown_counterexample:
  "spec_in_month ''alice'' 2024 5 (alice_expense 1 ''2024-05-01'' [] 100)
   \<and> category_breakdown (with_expenses [alice_expense 1 ''2024-05-01'' [] 100]) ''alice'' 2024 5
       = [''Other'' \<mapsto> 100]
   \<and> spec_in_month ''alice'' 999 5 (alice_expense 1 ''0999-05-01'' ''Food'' 100)
   \<and> category_breakdown (with_expenses [alice_expense 1 ''0999-05-01'' ''Food'' 100]) ''alice'' 999 5
       = Map.empty"
  by (simp add: breakdown_eval spec_in_month_def)

text \<open>
  C1, as the source has it. Let the selected rows be those whose username is the given one,
  whose date's first four characters are \<open>str(year)\<close> and whose characters 6-7 are the
  zero-padded month. For every category \<open>c\<close> other than the empty one, and for \<open>Other\<close>
  provided no selected row has a NULL or empty category, the breakdown maps \<open>c\<close> to the sum
  of the amounts of exactly the selected rows of category \<open>c\<close>, and \<open>c\<close> is not a key when
  there is no such row. The empty category is never a key. From the year 1000 on,
  \<open>str(year)\<close> is the zero-padded year and the selected rows are those of the spec.
\<close>

theorem category_breakdown_sums:
  "(c \<noteq> [] \<and>
    (c = ''Other'' \<longrightarrow>
       filter (\<lambda>r. in_month u year month r \<and> (exp_category r = None \<or> exp_category r = Some []))
         (expenses d) = []) \<longrightarrow>
      category_breakdown d u year month c =
        (let rs = filter (\<lambda>r. in_month u year month r \<and> exp_category r = Some c) (expenses d)
         in if rs = [] then None else Some (sum_list (map amount_of rs))))
   \<and> category_breakdown d u year month [] = None
   \<and> (1000 \<le> year \<longrightarrow> in_month u year month r = spec_in_month u year month r)"
  by (simp add: category_breakdown_def breakdown_key where_month_in_month breakdown_loop_empty_key
        in_month_spec)

theorem category_breakdown_sums_witness:
  "category_breakdown example_db ''alice'' 2024 5 ''Food'' = Some 150
   \<and> category_breakdown example_db ''alice'' 2024 6 ''Food'' = Some 10
   \<and> category_breakdown example_db ''alice'' 2024 7 ''Food'' = None
   \<and> category_breakdown
        (with_expenses [alice_expense 1 ''2024-05-01'' ''Other'' 50, alice_expense 2 ''2024-05-02'' ''Food'' 20,
                        alice_expense 3 ''2024-05-03'' ''Other'' 5])
        ''alice'' 2024 5 ''Other'' = Some 55
   \<and> category_breakdown example_db ''alice'' 2024 5 = [''Food'' \<mapsto> 150]"
proof -
  have full: "category_breakdown example_db ''alice'' 2024 5 = [''Food'' \<mapsto> 150]"
    by (simp add: breakdown_eval example_db_def)
  have h: "''Food'' \<noteq> [] \<and> ''Food'' \<noteq> ''Other''" by simp
  from h category_breakdown_sums [of "''Food''" "''alice''" 2024 5 example_db]
       category_breakdown_sums [of "''Food''" "''alice''" 2024 6 example_db]
       category_breakdown_sums [of "''Food''" "''alice''" 2024 7 example_db]
  have food: "category_breakdown example_db ''alice'' 2024 5 ''Food'' = Some 150
      \<and> category_breakdown example_db ''alice'' 2024 6 ''Food'' = Some 10
      \<and> category_breakdown example_db ''alice'' 2024 7 ''Food'' = None"
    by (simp add: example_db_def alice_expense_def in_month_def amount_of_def
          py_str_def py_format_0d_def zero_pad_def dec_digits.simps)
  from category_breakdown_sums [of "''Other''" "''alice''" 2024 5
         "with_expenses [alice_expense 1 ''2024-05-01'' ''Other'' 50, alice_expense 2 ''2024-05-02'' ''Food'' 20,
                         alice_expense 3 ''2024-05-03'' ''Other'' 5]"]
  have other: "category_breakdown
        (with_expenses [alice_expense 1 ''2024-05-01'' ''Other'' 50, alice_expense 2 ''2024-05-02'' ''Food'' 20,
                        alice_expense 3 ''2024-05-03'' ''Other'' 5])
        ''alice'' 2024 5 ''Other'' = Some 55"
    by (simp add: with_expenses_def alice_expense_def in_month_def amount_of_def
          py_str_def py_format_0d_def zero_pad_def dec_digits.simps)
  from full food other show ?thesis by simp
qed

text \<open>
  C10 on two expenses of one month, entered through \<open>add_expense\<close>: 100 without a category
  (stored as the empty text) and 50 in the category \<open>Other\<close>. The query returns the groups
  \<open>("", 100)\<close> and \<open>("Other", 50)\<close>; the loop writes both under the key \<open>Other\<close>, the second
  over the first, and the 100 of the uncategorised expense are in no total.
\<close>

theorem uncategorised_total_overwritten:
  "snd (add_expense example_lib ''2024-05-02''
         (snd (add_expense example_lib ''2024-05-01'' (with_expenses []) ''alice'' (PInt 100) None None
                 SplitNone None None))
         ''alice'' (PInt 50) (Some ''Other'') None SplitNone None None)
     = (with_expenses [alice_expense 4 ''2024-05-01'' [] 100, alice_expense 5 ''2024-05-02'' ''Other'' 50])
          \<lparr>expenses_seq := 5\<rparr>
   \<and> select_category_totals
        ((with_expenses [alice_expense 4 ''2024-05-01'' [] 100, alice_expense 5 ''2024-05-02'' ''Other'' 50])
           \<lparr>expenses_seq := 5\<rparr>) ''alice'' ''2024'' ''05''
       = [(Some [], Some 100), (Some ''Other'', Some 50)]
   \<and> category_breakdown
        ((with_expenses [alice_expense 4 ''2024-05-01'' [] 100, alice_expense 5 ''2024-05-02'' ''Other'' 50])
           \<lparr>expenses_seq := 5\<rparr>) ''alice'' 2024 5
       = [''Other'' \<mapsto> 50]"
  by (simp add: breakdown_eval add_expense_def example_db_def or_empty_def max_rowid_def
        small_int_floats)

subsection \<open>Goals and the numeric coercions of the add operations\<close>

lemmas limits_eval = max_rowid_def int64_def small_int_floats

text \<open>
  As stated, C7 fails: \<open>add_goal\<close> converts, it does not clamp. A target of -5 and -3 months
  are stored as given.
\<close>

theorem add_goal_bounds_counterexample:
  "fst (add_goal example_lib ''2024-05-01'' example_db ''alice'' (Some ''Car'') (PFloat (- 5)) (PInt (- 3)) None) = True
   \<and> map (\<lambda>r. (goal_target_amount r, goal_months_to_complete r))
        (goals (snd (add_goal example_lib ''2024-05-01'' example_db ''alice'' (Some ''Car'')
                       (PFloat (- 5)) (PInt (- 3)) None)))
       = [(Some (- 5), Some (- 3))]"
  by (simp add: add_goal_def py_or_def example_db_def limits_eval)

lemma add_goal_True:
  "add_goal L today d u g ta mo co = (True, d') \<Longrightarrow>
   \<exists>x m row. py_float L (py_or ta (PFloat 0)) = Some x \<and> py_int L (py_or mo (PInt 1)) = Some m
     \<and> goals d' = goals d @ [row]
     \<and> goal_target_amount row = Some x \<and> goal_months_to_complete row = Some m"
  by (auto simp: add_goal_def Let_def split: option.splits if_splits)

lemma py_or_float_nonneg:
  "py_float L (py_or ta (PFloat 0)) = Some x \<Longrightarrow>
   (0 \<le> x \<longleftrightarrow> \<not> truthy ta \<or> (\<exists>y. py_float L ta = Some y \<and> 0 \<le> y))"
  by (auto simp: py_or_def split: if_splits)

lemma py_or_int_positive:
  "py_int L (py_or mo (PInt 1)) = Some m \<Longrightarrow>
   (1 \<le> m \<longleftrightarrow> \<not> truthy mo \<or> (\<exists>k. py_int L mo = Some k \<and> 1 \<le> k))"
  by (auto simp: py_or_def split: if_splits)

text \<open>
  C7, as the source has it. A successful \<open>add_goal\<close> appends one row, whose target amount
  is \<open>float(target_amount or 0.0)\<close> and whose months are \<open>int(months or 1)\<close>. So the stored
  target is \<open>\<ge> 0\<close> exactly when the given one is falsy (\<open>None\<close>, zero, empty) or converts to
  a number \<open>\<ge> 0\<close>, and the stored months are \<open>\<ge> 1\<close> exactly when the given ones are falsy
  or convert to an integer \<open>\<ge> 1\<close>.
\<close>

theorem add_goal_stored_values:
  "add_goal L today d u g ta mo co = (True, d') \<Longrightarrow>
   \<exists>x m row. py_float L (py_or ta (PFloat 0)) = Some x \<and> py_int L (py_or mo (PInt 1)) = Some m
     \<and> goals d' = goals d @ [row]
     \<and> goal_target_amount row = Some x \<and> goal_months_to_complete row = Some m
     \<and> (0 \<le> x \<longleftrightarrow> \<not> truthy ta \<or> (\<exists>y. py_float L ta = Some y \<and> 0 \<le> y))
     \<and> (1 \<le> m \<longleftrightarrow> \<not> truthy mo \<or> (\<exists>k. py_int L mo = Some k \<and> 1 \<le> k))"
proof -
  assume "add_goal L today d u g ta mo co = (True, d')"
  from add_goal_True [OF this] obtain x m row where
    h: "py_float L (py_or ta (PFloat 0)) = Some x" "py_int L (py_or mo (PInt 1)) = Some m"
       "goals d' = goals d @ [row]" "goal_target_amount row = Some x"
       "goal_months_to_complete row = Some m"
    by blast
  from h py_or_float_nonneg [OF h(1)] py_or_int_positive [OF h(2)] show ?thesis by blast
qed

theorem add_goal_stored_values_witness:
  "add_goal example_lib ''2024-05-01'' example_db ''alice'' (Some ''Car'') PNone (PInt 0) None
     = (True, snd (add_goal example_lib ''2024-05-01'' example_db ''alice'' (Some ''Car'') PNone (PInt 0) None))
   \<and> map (\<lambda>r. (goal_target_amount r, goal_months_to_complete r))
        (goals (snd (add_goal example_lib ''2024-05-01'' example_db ''alice'' (Some ''Car'') PNone (PInt 0) None)))
       = [(Some 0, Some 1)]"
proof -
  let ?d' = "snd (add_goal example_lib ''2024-05-01'' example_db ''alice'' (Some ''Car'') PNone (PInt 0) None)"
  have h: "add_goal example_lib ''2024-05-01'' example_db ''alice'' (Some ''Car'') PNone (PInt 0) None = (True, ?d')"
    by (simp add: add_goal_def py_or_def example_db_def limits_eval)
  have g: "goals example_db = []" by (simp add: example_db_def)
  from add_goal_stored_values [OF h] obtain x m row where
    "py_float example_lib (py_or PNone (PFloat 0)) = Some x"
    "py_int example_lib (py_or (PInt 0) (PInt 1)) = Some m"
    "goals ?d' = goals example_db @ [row]"
    "goal_target_amount row = Some x" "goal_months_to_complete row = Some m"
    by blast
  then have "map (\<lambda>r. (goal_target_amount r, goal_months_to_complete r)) (goals ?d') = [(Some 0, Some 1)]"
    by (simp add: g py_or_def)
  with h show ?thesis by simp
qed







subsection \<open>Password hashing\<close>

text \<open>
  What the source settles about \<open>verify_password\<close> whatever the hashing libraries do: an
  empty or missing stored hash verifies nothing; and without bcrypt a password verifies
  against its own hash when the digest is a non-empty text. That a password with one more
  character does not verify is the collision freedom of the hash in use.
\<close>

lemma verify_password_no_hash:
  "verify_password L plain None = False \<and> verify_password L plain (Some []) = False"
  by (simp add: verify_password_def)

lemma verify_own_hash_sha256:
  "\<not> has_bcrypt L \<Longrightarrow> plain \<noteq> [] \<Longrightarrow> sha256_hexdigest L plain \<noteq> [] \<Longrightarrow>
   hash_password L salt plain = Some (sha256_hexdigest L plain)
   \<and> verify_password L plain (Some (sha256_hexdigest L plain)) = True"
  by (simp add: verify_password_def hash_password_def)

lemma verify_other_sha256:
  "\<not> has_bcrypt L \<Longrightarrow> plain \<noteq> [] \<Longrightarrow>
   verify_password L (plain @ ''x'') (Some (sha256_hexdigest L plain)) =
     (sha256_hexdigest L plain \<noteq> [] \<and> sha256_hexdigest L (plain @ ''x'') = sha256_hexdigest L plain)"
  by (auto simp: verify_password_def hash_password_def)

end
